theory Spec2Isabelle
  imports Complex_Main "HOL-Library.Log_Nat" "HOL-Library.AList"
begin

section \<open>Errors\<close>

text \<open>
  The bridge (package luar: map.go and luar.go) fails in two ways: a Go run-time panic
  (raised by the code itself, by package reflect or by the Go run time), and a script
  error raised through the interpreter's argument checks (\<^verbatim>\<open>L.CheckUserData\<close>).
  Both abort the running call; each is a value of the model.
\<close>

datatype error = GoPanic string | LuaArgError nat string

definition bindE :: "error + 'a \<Rightarrow> ('a \<Rightarrow> error + 'b) \<Rightarrow> error + 'b" where
  "bindE m f = (case m of Inl e \<Rightarrow> Inl e | Inr x \<Rightarrow> f x)"

section \<open>Numbers\<close>

text \<open>
  \<^verbatim>\<open>lua.LNumber\<close> is a Go \<^verbatim>\<open>float64\<close>. A floating-point value is modelled by the
  rational number it denotes: infinities, NaN, the sign of zero and the exponent range are
  outside the model. Rounding is modelled: a conversion to a floating-point type rounds
  to the nearest value with the type's precision (53 or 24 significant bits), ties to even.
\<close>

type_synonym float64 = rat

definition pow2 :: "int \<Rightarrow> rat" where
  "pow2 k = (if 0 \<le> k then 2 ^ nat k else 1 / 2 ^ nat (- k))"

definition ilog2 :: "rat \<Rightarrow> int" where
  \<comment> \<open>for \<open>0 < r\<close>: the exponent \<open>e\<close> with \<open>2^e \<le> r < 2^(e+1)\<close>\<close>
  "ilog2 r = (case quotient_of r of (a, b) \<Rightarrow>
     let k = bitlen a - bitlen b in if pow2 k \<le> r then k else k - 1)"

definition round_half_even :: "rat \<Rightarrow> int" where
  "round_half_even q =
     (let f = \<lfloor>q\<rfloor>; d = q - of_int f
      in if d < 1 / 2 then f else if 1 / 2 < d then f + 1 else if even f then f else f + 1)"

definition round_prec :: "nat \<Rightarrow> rat \<Rightarrow> rat" where
  \<comment> \<open>round to \<open>p\<close> significant bits\<close>
  "round_prec p r =
     (if r = 0 then 0
      else let e = ilog2 \<bar>r\<bar>; u = pow2 (e - int p + 1)
           in of_int (round_half_even (r / u)) * u)"

definition float64_of_int :: "int \<Rightarrow> float64" where
  \<comment> \<open>Go's \<^verbatim>\<open>float64(n)\<close> for an integer \<open>n\<close>\<close>
  "float64_of_int n = round_prec 53 (of_int n)"

definition float32_of_float64 :: "float64 \<Rightarrow> float64" where
  \<comment> \<open>Go's \<^verbatim>\<open>float32(f)\<close>, the result read as the number it denotes\<close>
  "float32_of_float64 f = round_prec 24 f"

definition trunc :: "rat \<Rightarrow> int" where
  \<comment> \<open>the fraction is discarded (truncation towards zero)\<close>
  "trunc r = (if 0 \<le> r then \<lfloor>r\<rfloor> else - \<lfloor>- r\<rfloor>)"

section \<open>Script values\<close>

text \<open>
  The dynamic types behind the interpreter's \<^verbatim>\<open>lua.LValue\<close> interface:
  \<^verbatim>\<open>*LNilType\<close> (the value \<^verbatim>\<open>LNil\<close>), \<^verbatim>\<open>LBool\<close>, \<^verbatim>\<open>LNumber\<close>, \<^verbatim>\<open>LString\<close>,
  \<^verbatim>\<open>*LFunction\<close>, \<^verbatim>\<open>*LUserData\<close>, \<^verbatim>\<open>*LState\<close>, \<^verbatim>\<open>*LTable\<close> and \<^verbatim>\<open>LChannel\<close>.
  Objects are referred to by address. A Go variable of type \<^verbatim>\<open>lua.LValue\<close> is an
  \<open>lvalue option\<close>: \<open>None\<close> is the nil interface, which is not a script value.
\<close>

datatype lvalue =
    LNil
  | LBool bool
  | LNumber float64
  | LString string
  | LFunction nat
  | LUserData nat
  | LState nat
  | LTable nat
  | LChannel nat

section \<open>Host types and values\<close>

datatype isize = SzArch | Sz8 | Sz16 | Sz32 | Sz64

text \<open>\<^verbatim>\<open>reflect.Kind\<close>. \<open>KInt sz\<close> stands for the five kinds Int, Int8, Int16, Int32 and
  Int64, \<open>KUint sz\<close> for Uint, Uint8, Uint16, Uint32 and Uint64.\<close>

datatype kind =
    KInvalid | KBool | KInt isize | KUint isize | KUintptr
  | KFloat32 | KFloat64 | KComplex64 | KComplex128
  | KArray | KChan | KFunc | KInterface | KMap | KPtr | KSlice | KString | KStruct
  | KUnsafePointer

text \<open>
  Host types. \<open>TNamed n t\<close> is a defined type \<^verbatim>\<open>type n t\<close>; the other constructors are
  the predeclared types and the type literals. \<open>TIface\<close> is the empty interface
  \<^verbatim>\<open>interface{}\<close>; interfaces with methods are outside the model.
\<close>

datatype gtype =
    TBool | TInt isize | TUint isize | TUintptr
  | TFloat32 | TFloat64 | TComplex64 | TComplex128
  | TString | TUnsafePointer | TIface
  | TArray nat gtype | TChan gtype | TFunc "gtype list" "gtype list"
  | TMap gtype gtype | TPtr gtype | TSlice gtype | TStruct "(string \<times> gtype) list"
  | TNamed string gtype

fun kind_of :: "gtype \<Rightarrow> kind" where
  "kind_of TBool = KBool"
| "kind_of (TInt sz) = KInt sz"
| "kind_of (TUint sz) = KUint sz"
| "kind_of TUintptr = KUintptr"
| "kind_of TFloat32 = KFloat32"
| "kind_of TFloat64 = KFloat64"
| "kind_of TComplex64 = KComplex64"
| "kind_of TComplex128 = KComplex128"
| "kind_of TString = KString"
| "kind_of TUnsafePointer = KUnsafePointer"
| "kind_of TIface = KInterface"
| "kind_of (TArray n t) = KArray"
| "kind_of (TChan t) = KChan"
| "kind_of (TFunc ps rs) = KFunc"
| "kind_of (TMap k e) = KMap"
| "kind_of (TPtr t) = KPtr"
| "kind_of (TSlice t) = KSlice"
| "kind_of (TStruct fs) = KStruct"
| "kind_of (TNamed n t) = kind_of t"

fun underlying :: "gtype \<Rightarrow> gtype" where
  "underlying (TNamed n t) = underlying t"
| "underlying t = t"

text \<open>
  Host values. A value is either one of the interpreter's own values (a Go value whose
  dynamic type implements \<^verbatim>\<open>lua.LValue\<close>) or a typed datum. References (channels,
  functions, maps, pointers, unsafe pointers) are addresses, \<open>None\<close> for nil; a slice is
  its array, length and capacity; a struct or array is the list of its fields or elements;
  a type descriptor (\<^verbatim>\<open>reflect.Type\<close>) is the type it describes; a datum of interface
  type holds a dynamic value or nil. A Go \<^verbatim>\<open>interface{}\<close> is a
  \<open>gval option\<close>.
\<close>

datatype gdata =
    DBool bool
  | DInt int
  | DFloat float64
  | DComplex float64 float64
  | DString string
  | DRef "nat option"
  | DSlice "nat option" nat nat
  | DList "gdata list"
  | DType gtype
  | DIface "gval option"
and gval =
    GLua lvalue
  | GVal gtype gdata

text \<open>\<^verbatim>\<open>reflect.Value\<close>: the zero Value (invalid), or a value with its type.\<close>

datatype rvalue = RInvalid | RVal gval


definition ValueOf :: "gval option \<Rightarrow> rvalue" where
  \<comment> \<open>\<^verbatim>\<open>reflect.ValueOf\<close>: the zero Value for a nil interface\<close>
  "ValueOf x = (case x of None \<Rightarrow> RInvalid | Some v \<Rightarrow> RVal v)"

fun lua_kind :: "lvalue \<Rightarrow> kind" where
  \<comment> \<open>the kinds of the interpreter's own Go types\<close>
  "lua_kind LNil = KPtr"
| "lua_kind (LBool b) = KBool"
| "lua_kind (LNumber n) = KFloat64"
| "lua_kind (LString s) = KString"
| "lua_kind (LFunction f) = KPtr"
| "lua_kind (LUserData u) = KPtr"
| "lua_kind (LState t) = KPtr"
| "lua_kind (LTable t) = KPtr"
| "lua_kind (LChannel c) = KChan"

fun Kind :: "rvalue \<Rightarrow> kind" where
  "Kind RInvalid = KInvalid"
| "Kind (RVal (GLua v)) = lua_kind v"
| "Kind (RVal (GVal t d)) = kind_of t"

definition IsValid :: "rvalue \<Rightarrow> bool" where
  "IsValid v = (v \<noteq> RInvalid)"

fun Interface :: "rvalue \<Rightarrow> error + gval option" where
  \<comment> \<open>\<^verbatim>\<open>Value.Interface\<close>: panics on the zero Value; a Value of interface kind gives
      the dynamic value it holds\<close>
  "Interface RInvalid = Inl (GoPanic ''reflect: call of reflect.Value.Interface on zero Value'')"
| "Interface (RVal (GVal t (DIface x))) = Inr (if kind_of t = KInterface then x else Some (GVal t (DIface x)))"
| "Interface (RVal v) = Inr (Some v)"

text \<open>The accessors \<^verbatim>\<open>Value.Bool\<close>, \<^verbatim>\<open>Int\<close>, \<^verbatim>\<open>Uint\<close>, \<^verbatim>\<open>Float\<close> and \<^verbatim>\<open>String\<close>
  read the datum; \<^verbatim>\<open>New\<close> calls each one under the matching kind only.\<close>

definition data_bool :: "gdata \<Rightarrow> bool" where
  "data_bool d = (case d of DBool b \<Rightarrow> b | _ \<Rightarrow> False)"

definition data_int :: "gdata \<Rightarrow> int" where
  "data_int d = (case d of DInt n \<Rightarrow> n | _ \<Rightarrow> 0)"

definition data_float :: "gdata \<Rightarrow> float64" where
  "data_float d = (case d of DFloat f \<Rightarrow> f | _ \<Rightarrow> 0)"

definition data_string :: "gdata \<Rightarrow> string" where
  "data_string d = (case d of DString s \<Rightarrow> s | _ \<Rightarrow> [])"

section \<open>The interpreter state and the host heap\<close>

text \<open>The Go functions that \<^verbatim>\<open>init\<close> enters into \<^verbatim>\<open>typeMetatable\<close>, by name.\<close>

datatype gfunction =
    F_chanIndex | F_chanToString | F_baseEqual
  | F_mapIndex | F_mapNewIndex | F_mapLen | F_mapCall | F_baseToString
  | F_ptrIndex | F_ptrNewIndex | F_ptrToString
  | F_sliceIndex | F_sliceNewIndex | F_sliceLen
  | F_structIndex | F_structNewIndex
  | F_typeCall | F_typeToString

text \<open>
  A function object is a registered Go function, the closure that \<^verbatim>\<open>mapCall\<close> creates
  (its captured \<^verbatim>\<open>value\<close>, \<^verbatim>\<open>keys\<close> and \<^verbatim>\<open>i\<close>), or a wrapped host function.
\<close>

datatype lfunction =
    GoFunction gfunction
  | MapIterator rvalue "rvalue list" nat
  | WrappedFunction gval

record luserdata =
  Value :: "gval option"
  Metatable :: lvalue

type_synonym ltable = "lvalue \<Rightarrow> lvalue"

text \<open>
  A table maps keys to values, \<open>LNil\<close> for an absent key. The state holds the registry
  (\<^verbatim>\<open>L.G.Registry\<close>), the tables, userdata and function objects by address with the next
  free address of each, and the host heap: the entries of each Go map in the order in
  which \<^verbatim>\<open>MapKeys\<close> and \<^verbatim>\<open>range\<close> enumerate them (any order, at any time), and the
  number of elements queued in each channel.
\<close>

record lstate =
  Registry :: ltable
  tables :: "nat \<Rightarrow> ltable"
  next_table :: nat
  userdata :: "nat \<Rightarrow> luserdata"
  next_userdata :: nat
  funcs :: "nat \<Rightarrow> lfunction"
  next_function :: nat
  gomaps :: "nat \<Rightarrow> (gdata \<times> gdata) list"
  gochans :: "nat \<Rightarrow> nat"

definition NewTable :: "lstate \<Rightarrow> nat \<times> lstate" where
  "NewTable L = (next_table L,
     L\<lparr>tables := (tables L)(next_table L := (\<lambda>k. LNil)), next_table := Suc (next_table L)\<rparr>)"

definition NewFunction :: "lstate \<Rightarrow> lfunction \<Rightarrow> nat \<times> lstate" where
  "NewFunction L fn = (next_function L,
     L\<lparr>funcs := (funcs L)(next_function L := fn),
       next_function := Suc (next_function L)\<rparr>)"

definition NewUserData :: "lstate \<Rightarrow> nat \<times> lstate" where
  \<comment> \<open>a fresh userdata with no value and no metatable\<close>
  "NewUserData L = (next_userdata L,
     L\<lparr>userdata := (userdata L)(next_userdata L := \<lparr>Value = None, Metatable = LNil\<rparr>),
       next_userdata := Suc (next_userdata L)\<rparr>)"

definition RawGetH :: "lstate \<Rightarrow> nat \<Rightarrow> lvalue \<Rightarrow> lvalue" where
  "RawGetH L t k = tables L t k"

definition RawSetH :: "lstate \<Rightarrow> nat \<Rightarrow> lvalue \<Rightarrow> lvalue \<Rightarrow> lstate" where
  "RawSetH L t k v = L\<lparr>tables := (tables L)(t := (tables L t)(k := v))\<rparr>"

section \<open>The operator tables (luar.go)\<close>

definition typeMetatable :: "(string \<times> (string \<times> gfunction) list) list" where
  "typeMetatable =
    [(''chan'', [(''__index'', F_chanIndex), (''__tostring'', F_chanToString),
                 (''__eq'', F_baseEqual)]),
     (''map'', [(''__index'', F_mapIndex), (''__newindex'', F_mapNewIndex),
                (''__len'', F_mapLen), (''__call'', F_mapCall),
                (''__tostring'', F_baseToString), (''__eq'', F_baseEqual)]),
     (''ptr'', [(''__index'', F_ptrIndex), (''__newindex'', F_ptrNewIndex),
                (''__tostring'', F_ptrToString), (''__eq'', F_baseEqual)]),
     (''slice'', [(''__index'', F_sliceIndex), (''__newindex'', F_sliceNewIndex),
                  (''__len'', F_sliceLen), (''__tostring'', F_baseToString),
                  (''__eq'', F_baseEqual)]),
     (''struct'', [(''__index'', F_structIndex), (''__newindex'', F_structNewIndex),
                   (''__tostring'', F_baseToString)]),
     (''type'', [(''__call'', F_typeCall), (''__tostring'', F_typeToString)])]"

definition metatableKey :: lvalue where
  "metatableKey = LString ''github.com/layeh/gopher-luar''"

text \<open>The inner loop of \<^verbatim>\<open>ensureMetatable\<close>: one new function object per method.\<close>

fun setMethods :: "nat \<Rightarrow> (string \<times> gfunction) list \<Rightarrow> lstate \<Rightarrow> lstate" where
  "setMethods typeTable [] L = L"
| "setMethods typeTable ((methodName, methodFunc) # ms) L =
     (case NewFunction L (GoFunction methodFunc) of (f, L1) \<Rightarrow>
        setMethods typeTable ms (RawSetH L1 typeTable (LString methodName) (LFunction f)))"

text \<open>The outer loop: one new table per type name, protected by \<^verbatim>\<open>__metatable\<close>.
  The loops run over the entries in the order given; Go enumerates a map in an order of
  its choice; \<^verbatim>\<open>ensureMetatable\<close> below takes the order of the literal. Only the
  addresses of the new objects depend on the order.\<close>

fun setTypeTables :: "nat \<Rightarrow> (string \<times> (string \<times> gfunction) list) list \<Rightarrow> lstate \<Rightarrow> lstate" where
  "setTypeTables newTable [] L = L"
| "setTypeTables newTable ((typeName, typeMethods) # ts) L =
     (case NewTable L of (typeTable, L1) \<Rightarrow>
        let L2 = RawSetH L1 typeTable (LString ''__metatable'') (LBool True);
            L3 = setMethods typeTable typeMethods L2;
            L4 = RawSetH L3 newTable (LString typeName) (LTable typeTable)
        in setTypeTables newTable ts L4)"

definition ensureMetatable :: "lstate \<Rightarrow> error + (nat \<times> lstate)" where
  "ensureMetatable L =
     (let v = Registry L metatableKey in
      if v \<noteq> LNil then
        (case v of
           LTable t \<Rightarrow> Inr (t, L)
         | _ \<Rightarrow> Inl (GoPanic ''interface conversion: lua.LValue is not *lua.LTable''))
      else
        (case NewTable L of (newTable, L1) \<Rightarrow>
           let L2 = setTypeTables newTable typeMetatable L1
           in Inr (newTable, L2\<lparr>Registry := (Registry L2)(metatableKey := LTable newTable)\<rparr>)))"

section \<open>Forward conversion (luar.go)\<close>

definition funcWrapper :: "lstate \<Rightarrow> gval \<Rightarrow> lvalue option \<times> lstate" where
  \<comment> \<open>Modelled from the spec: the Function Adapter (func.go is not among the sources)
      wraps a host function as a script callable; here a new function object that holds
      the host function.\<close>
  "funcWrapper L val = (case NewFunction L (WrappedFunction val) of (f, L1) \<Rightarrow> (Some (LFunction f), L1))"

definition newHandle :: "lstate \<Rightarrow> gval \<Rightarrow> lvalue \<Rightarrow> lvalue option \<times> lstate" where
  \<comment> \<open>\<^verbatim>\<open>ud := L.NewUserData(); ud.Value = val.Interface(); ud.Metatable = mt; return ud\<close>\<close>
  "newHandle L val mt =
     (case NewUserData L of (ud, L1) \<Rightarrow>
        (Some (LUserData ud),
         L1\<lparr>userdata := (userdata L1)(ud := \<lparr>Value = Some val, Metatable = mt\<rparr>)\<rparr>))"

fun New :: "lstate \<Rightarrow> gval option \<Rightarrow> error + (lvalue option \<times> lstate)" where
  "New L None = Inr (Some LNil, L)"
| "New L (Some (GLua lval)) = Inr (Some lval, L)"
| "New L (Some (GVal t d)) =
     bindE (ensureMetatable L) (\<lambda>(table, L1).
       case kind_of t of
         KBool \<Rightarrow> Inr (Some (LBool (data_bool d)), L1)
       | KInt sz \<Rightarrow> Inr (Some (LNumber (float64_of_int (data_int d))), L1)
       | KUint sz \<Rightarrow> Inr (Some (LNumber (float64_of_int (data_int d))), L1)
       | KFloat32 \<Rightarrow> Inr (Some (LNumber (data_float d)), L1)
       | KFloat64 \<Rightarrow> Inr (Some (LNumber (data_float d)), L1)
       | KChan \<Rightarrow> Inr (newHandle L1 (GVal t d) (RawGetH L1 table (LString ''chan'')))
       | KFunc \<Rightarrow> Inr (funcWrapper L1 (GVal t d))
       | KInterface \<Rightarrow> Inr (newHandle L1 (GVal t d) LNil)
       | KMap \<Rightarrow> Inr (newHandle L1 (GVal t d) (RawGetH L1 table (LString ''map'')))
       | KPtr \<Rightarrow> Inr (newHandle L1 (GVal t d) (RawGetH L1 table (LString ''ptr'')))
       | KSlice \<Rightarrow> Inr (newHandle L1 (GVal t d) (RawGetH L1 table (LString ''slice'')))
       | KString \<Rightarrow> Inr (Some (LString (data_string d)), L1)
       | KStruct \<Rightarrow> Inr (newHandle L1 (GVal t d) (RawGetH L1 table (LString ''struct'')))
       | KUnsafePointer \<Rightarrow> Inr (newHandle L1 (GVal t d) LNil)
       | _ \<Rightarrow> Inr (None, L1))"

definition rtype :: gtype where
  \<comment> \<open>the dynamic type of a \<^verbatim>\<open>reflect.Type\<close>\<close>
  "rtype = TPtr (TNamed ''reflect.rtype'' (TStruct []))"

definition NewType :: "lstate \<Rightarrow> gtype option \<Rightarrow> error + (lvalue option \<times> lstate)" where
  \<comment> \<open>the argument is \<^verbatim>\<open>reflect.TypeOf(value)\<close>, \<open>None\<close> for a nil \<^verbatim>\<open>value\<close>\<close>
  "NewType L valueType =
     bindE (ensureMetatable L) (\<lambda>(table, L1).
       case NewUserData L1 of (ud, L2) \<Rightarrow>
         Inr (Some (LUserData ud),
              L2\<lparr>userdata := (userdata L2)(ud :=
                   \<lparr>Value = map_option (\<lambda>t. GVal rtype (DType t)) valueType,
                    Metatable = RawGetH L2 table (LString ''type'')\<rparr>)\<rparr>))"

section \<open>Reverse conversion (luar.go)\<close>

fun bits :: "isize \<Rightarrow> nat" where
  \<comment> \<open>\<^verbatim>\<open>int\<close>, \<^verbatim>\<open>uint\<close> and \<^verbatim>\<open>uintptr\<close> have 64 bits (a 64-bit platform)\<close>
  "bits SzArch = 64"
| "bits Sz8 = 8"
| "bits Sz16 = 16"
| "bits Sz32 = 32"
| "bits Sz64 = 64"

definition wrap_int :: "nat \<Rightarrow> int \<Rightarrow> int" where
  \<comment> \<open>the low \<open>w\<close> bits, read in two's complement\<close>
  "wrap_int w n = (n + 2 ^ (w - 1)) mod 2 ^ w - 2 ^ (w - 1)"

definition wrap_uint :: "nat \<Rightarrow> int \<Rightarrow> int" where
  "wrap_uint w n = n mod 2 ^ w"

text \<open>
  \<^verbatim>\<open>reflect.Zero\<close>: the zero value of a type.
\<close>

fun zero_data :: "gtype \<Rightarrow> gdata" where
  "zero_data TBool = DBool False"
| "zero_data (TInt sz) = DInt 0"
| "zero_data (TUint sz) = DInt 0"
| "zero_data TUintptr = DInt 0"
| "zero_data TFloat32 = DFloat 0"
| "zero_data TFloat64 = DFloat 0"
| "zero_data TComplex64 = DComplex 0 0"
| "zero_data TComplex128 = DComplex 0 0"
| "zero_data TString = DString []"
| "zero_data TUnsafePointer = DRef None"
| "zero_data TIface = DIface None"
| "zero_data (TArray n t) = DList (replicate n (zero_data t))"
| "zero_data (TChan t) = DRef None"
| "zero_data (TFunc ps rs) = DRef None"
| "zero_data (TMap k e) = DRef None"
| "zero_data (TPtr t) = DRef None"
| "zero_data (TSlice t) = DSlice None 0 0"
| "zero_data (TStruct fs) = DList (map (\<lambda>f. zero_data (snd f)) fs)"
| "zero_data (TNamed n t) = zero_data t"

definition Zero :: "gtype \<Rightarrow> rvalue" where
  "Zero typ = RVal (GVal typ (zero_data typ))"

text \<open>
  \<^verbatim>\<open>reflect.ValueOf(converted).Convert(hint)\<close> for a \<^verbatim>\<open>lua.LNumber\<close> (kind Float64):
  to an integer type by truncation, to a floating-point type by rounding, to the empty
  interface by boxing; any other type panics. The Go specification leaves the result of
  converting a number that the integer type \<^verbatim>\<open>int64\<close> (or \<^verbatim>\<open>uint64\<close>) cannot represent
  to the implementation: \<open>impl\<close> stands for that choice. The 64-bit result is then cut to
  the width of the target type.
\<close>

definition cvtFloatInt :: "(kind \<Rightarrow> float64 \<Rightarrow> int) \<Rightarrow> float64 \<Rightarrow> isize \<Rightarrow> int" where
  "cvtFloatInt impl f sz =
     (let n = trunc f;
          n64 = (if - (2 ^ 63) \<le> n \<and> n < 2 ^ 63 then n else impl (KInt sz) f)
      in wrap_int (bits sz) n64)"

definition cvtFloatUint :: "(kind \<Rightarrow> float64 \<Rightarrow> int) \<Rightarrow> float64 \<Rightarrow> kind \<Rightarrow> nat \<Rightarrow> int" where
  "cvtFloatUint impl f k w =
     (let n = trunc f;
          n64 = (if 0 \<le> n \<and> n < 2 ^ 64 then n else impl k f)
      in wrap_uint w n64)"

definition ConvertNumber :: "(kind \<Rightarrow> float64 \<Rightarrow> int) \<Rightarrow> float64 \<Rightarrow> gtype \<Rightarrow> error + rvalue" where
  "ConvertNumber impl f hint =
     (case kind_of hint of
        KInt sz \<Rightarrow> Inr (RVal (GVal hint (DInt (cvtFloatInt impl f sz))))
      | KUint sz \<Rightarrow> Inr (RVal (GVal hint (DInt (cvtFloatUint impl f (KUint sz) (bits sz)))))
      | KUintptr \<Rightarrow> Inr (RVal (GVal hint (DInt (cvtFloatUint impl f KUintptr 64))))
      | KFloat32 \<Rightarrow> Inr (RVal (GVal hint (DFloat (float32_of_float64 f))))
      | KFloat64 \<Rightarrow> Inr (RVal (GVal hint (DFloat f)))
      | KInterface \<Rightarrow> Inr (RVal (GVal hint (DIface (Some (GLua (LNumber f))))))
      | _ \<Rightarrow> Inl (GoPanic ''reflect.Value.Convert: value of type lua.LNumber cannot be converted''))"

text \<open>
  The type switch of \<^verbatim>\<open>lValueToReflect\<close>, in the order of the source. The nil
  interface matches no case and reaches the \<^verbatim>\<open>panic\<close> after the switch.
\<close>

fun lValueToReflect ::
  "(kind \<Rightarrow> float64 \<Rightarrow> int) \<Rightarrow> lstate \<Rightarrow> lvalue option \<Rightarrow> gtype \<Rightarrow> error + rvalue" where
  "lValueToReflect impl L (Some (LBool converted)) hint = Inr (ValueOf (Some (GVal TBool (DBool converted))))"
| "lValueToReflect impl L (Some (LChannel converted)) hint = Inr (ValueOf (Some (GLua (LChannel converted))))"
| "lValueToReflect impl L (Some (LNumber converted)) hint = ConvertNumber impl converted hint"
| "lValueToReflect impl L (Some (LFunction converted)) hint = Inr (ValueOf (Some (GLua (LFunction converted))))"
| "lValueToReflect impl L (Some LNil) hint = Inr (Zero hint)"
| "lValueToReflect impl L (Some (LState converted)) hint = Inr (ValueOf (Some (GLua (LState converted))))"
| "lValueToReflect impl L (Some (LString converted)) hint = Inr (ValueOf (Some (GVal TString (DString converted))))"
| "lValueToReflect impl L (Some (LTable converted)) hint = Inr (ValueOf (Some (GLua (LTable converted))))"
| "lValueToReflect impl L (Some (LUserData converted)) hint = Inr (ValueOf (Value (userdata L converted)))"
| "lValueToReflect impl L None hint = Inl (GoPanic ''fatal lValueToReflect error'')"

section \<open>Equality, assignability and the host maps\<close>

text \<open>
  Go's \<^verbatim>\<open>==\<close> on two \<^verbatim>\<open>interface{}\<close> values: equal when both are nil, unequal when
  the dynamic types differ, a run-time panic when the common dynamic type is not
  comparable (a slice, map or function type, or a struct or array type built from one),
  otherwise the values are compared. Fields and elements are compared in order, up to the
  first difference.
\<close>

fun comparable :: "gtype \<Rightarrow> bool" where
  "comparable (TSlice t) = False"
| "comparable (TMap k e) = False"
| "comparable (TFunc ps rs) = False"
| "comparable (TArray n t) = comparable t"
| "comparable (TStruct fs) = list_all (\<lambda>f. comparable (snd f)) fs"
| "comparable (TNamed n t) = comparable t"
| "comparable t = True"

fun data_eq :: "gdata \<Rightarrow> gdata \<Rightarrow> error + bool"
  and fields_eq :: "gdata list \<Rightarrow> gdata list \<Rightarrow> error + bool"
  and iface_eq :: "gval option \<Rightarrow> gval option \<Rightarrow> error + bool" where
  "data_eq (DList xs) (DList ys) = fields_eq xs ys"
| "data_eq (DIface x) (DIface y) = iface_eq x y"
| "data_eq a b = Inr (a = b)"
| "fields_eq (x # xs) (y # ys) =
     bindE (data_eq x y) (\<lambda>b. if b then fields_eq xs ys else Inr False)"
| "fields_eq xs ys = Inr (xs = [] \<and> ys = [])"
| "iface_eq None None = Inr True"
| "iface_eq (Some (GLua a)) (Some (GLua b)) = Inr (a = b)"
| "iface_eq (Some (GVal t d)) (Some (GVal t' d')) =
     (if t \<noteq> t' then Inr False
      else if \<not> comparable t then Inl (GoPanic ''runtime error: comparing uncomparable type'')
      else data_eq d d')"
| "iface_eq x y = Inr False"

text \<open>A map key can be hashed unless an interface in it holds a value of a type that
  is not comparable.\<close>

fun hashable :: "gdata \<Rightarrow> bool" where
  "hashable (DList xs) = list_all hashable xs"
| "hashable (DIface (Some (GVal t d))) = (comparable t \<and> hashable d)"
| "hashable d = True"

text \<open>
  \<^verbatim>\<open>Value.assignTo\<close>, which \<^verbatim>\<open>MapIndex\<close> and \<^verbatim>\<open>SetMapIndex\<close> apply to the key and the
  element: a value is assignable to its own type, to a type with the same underlying type
  when one of the two has no name, and to the empty interface, which boxes it. The
  predeclared types have names.
\<close>

fun has_name :: "gtype \<Rightarrow> bool" where
  "has_name (TNamed n t) = True"
| "has_name TIface = False"
| "has_name (TArray n t) = False"
| "has_name (TChan t) = False"
| "has_name (TFunc ps rs) = False"
| "has_name (TMap k e) = False"
| "has_name (TPtr t) = False"
| "has_name (TSlice t) = False"
| "has_name (TStruct fs) = False"
| "has_name t = True"

definition directlyAssignable :: "gtype \<Rightarrow> gtype \<Rightarrow> bool" where
  "directlyAssignable T V =
     (T = V \<or> (\<not> (has_name T \<and> has_name V) \<and> kind_of T = kind_of V \<and> underlying T = underlying V))"

fun assignTo :: "string \<Rightarrow> rvalue \<Rightarrow> gtype \<Rightarrow> error + gdata" where
  "assignTo ctx RInvalid dst = Inl (GoPanic (ctx @ '' on zero Value''))"
| "assignTo ctx (RVal (GLua v)) dst =
     (if kind_of dst = KInterface then Inr (DIface (Some (GLua v)))
      else Inl (GoPanic (ctx @ '': value is not assignable to type'')))"
| "assignTo ctx (RVal (GVal t d)) dst =
     (if directlyAssignable dst t then Inr d
      else if kind_of dst = KInterface then
        (case Interface (RVal (GVal t d)) of Inl e \<Rightarrow> Inl e | Inr x \<Rightarrow> Inr (DIface x))
      else Inl (GoPanic (ctx @ '': value is not assignable to type'')))"

text \<open>\<^verbatim>\<open>value.Type().Key()\<close> and \<^verbatim>\<open>value.Type().Elem()\<close>.\<close>

fun Type_Key :: "rvalue \<Rightarrow> error + gtype" where
  "Type_Key RInvalid = Inl (GoPanic ''reflect: call of reflect.Value.Type on zero Value'')"
| "Type_Key (RVal (GLua v)) = Inl (GoPanic ''reflect: Key of non-map type'')"
| "Type_Key (RVal (GVal t d)) =
     (case underlying t of TMap k e \<Rightarrow> Inr k | _ \<Rightarrow> Inl (GoPanic ''reflect: Key of non-map type''))"

fun Type_Elem :: "rvalue \<Rightarrow> error + gtype" where
  "Type_Elem RInvalid = Inl (GoPanic ''reflect: call of reflect.Value.Type on zero Value'')"
| "Type_Elem (RVal (GLua v)) = Inl (GoPanic ''reflect: Elem of invalid type'')"
| "Type_Elem (RVal (GVal t d)) =
     (case underlying t of
        TMap k e \<Rightarrow> Inr e
      | TArray n e \<Rightarrow> Inr e
      | TChan e \<Rightarrow> Inr e
      | TPtr e \<Rightarrow> Inr e
      | TSlice e \<Rightarrow> Inr e
      | _ \<Rightarrow> Inl (GoPanic ''reflect: Elem of invalid type''))"

text \<open>The map behind a Value of kind Map: key type, element type and the address of
  the map, \<open>None\<close> for a nil map.\<close>

fun map_of_value :: "rvalue \<Rightarrow> (gtype \<times> gtype \<times> nat option) option" where
  "map_of_value (RVal (GVal t (DRef r))) =
     (case underlying t of TMap k e \<Rightarrow> Some (k, e, r) | _ \<Rightarrow> None)"
| "map_of_value v = None"

definition Len :: "lstate \<Rightarrow> rvalue \<Rightarrow> error + nat" where
  "Len L v =
     (case v of
        RVal (GLua (LString s)) \<Rightarrow> Inr (length s)
      | RVal (GLua (LChannel c)) \<Rightarrow> Inr (gochans L c)
      | RVal (GVal t d) \<Rightarrow>
          (case (underlying t, d) of
             (TArray n e, _) \<Rightarrow> Inr n
           | (TChan e, DRef r) \<Rightarrow> Inr (case r of None \<Rightarrow> 0 | Some a \<Rightarrow> gochans L a)
           | (TMap k e, DRef r) \<Rightarrow> Inr (case r of None \<Rightarrow> 0 | Some a \<Rightarrow> length (gomaps L a))
           | (TSlice e, DSlice a n c) \<Rightarrow> Inr n
           | (TString, DString s) \<Rightarrow> Inr (length s)
           | _ \<Rightarrow> Inl (GoPanic ''reflect: call of reflect.Value.Len on Value''))
      | _ \<Rightarrow> Inl (GoPanic ''reflect: call of reflect.Value.Len on Value''))"

definition MapKeys :: "lstate \<Rightarrow> rvalue \<Rightarrow> error + rvalue list" where
  "MapKeys L v =
     (case map_of_value v of
        None \<Rightarrow> Inl (GoPanic ''reflect: call of reflect.Value.MapKeys on non-map Value'')
      | Some (kt, et, r) \<Rightarrow>
          Inr (case r of None \<Rightarrow> [] | Some a \<Rightarrow> map (\<lambda>e. RVal (GVal kt (fst e))) (gomaps L a)))"

definition MapIndex :: "lstate \<Rightarrow> rvalue \<Rightarrow> rvalue \<Rightarrow> error + rvalue" where
  "MapIndex L v key =
     (case map_of_value v of
        None \<Rightarrow> Inl (GoPanic ''reflect: call of reflect.Value.MapIndex on non-map Value'')
      | Some (kt, et, r) \<Rightarrow>
          bindE (assignTo ''reflect.Value.MapIndex'' key kt) (\<lambda>k.
            if \<not> hashable k then Inl (GoPanic ''runtime error: hash of unhashable type'')
            else case r of
                   None \<Rightarrow> Inr RInvalid
                 | Some a \<Rightarrow>
                     (case map_of (gomaps L a) k of
                        None \<Rightarrow> Inr RInvalid
                      | Some e \<Rightarrow> Inr (RVal (GVal et e)))))"

text \<open>\<^verbatim>\<open>SetMapIndex\<close> deletes the key when the element is the zero Value, and stores the
  element otherwise: in place for a key of the map, as a new entry for another.\<close>

definition SetMapIndex :: "lstate \<Rightarrow> rvalue \<Rightarrow> rvalue \<Rightarrow> rvalue \<Rightarrow> error + lstate" where
  "SetMapIndex L v key elem =
     (case map_of_value v of
        None \<Rightarrow> Inl (GoPanic ''reflect: call of reflect.Value.SetMapIndex on non-map Value'')
      | Some (kt, et, r) \<Rightarrow>
          bindE (assignTo ''reflect.Value.SetMapIndex'' key kt) (\<lambda>k.
            if elem = RInvalid then
              (if \<not> hashable k then Inl (GoPanic ''runtime error: hash of unhashable type'')
               else case r of
                      None \<Rightarrow> Inr L
                    | Some a \<Rightarrow> Inr (L\<lparr>gomaps := (gomaps L)(a := AList.delete k (gomaps L a))\<rparr>))
            else
              bindE (assignTo ''reflect.Value.SetMapIndex'' elem et) (\<lambda>e.
                case r of
                  None \<Rightarrow> Inl (GoPanic ''assignment to entry in nil map'')
                | Some a \<Rightarrow>
                    if \<not> hashable k then Inl (GoPanic ''runtime error: hash of unhashable type'')
                    else Inr (L\<lparr>gomaps := (gomaps L)(a := AList.update k e (gomaps L a))\<rparr>))))"

section \<open>The map proxy (map.go)\<close>

text \<open>
  A registered function receives its arguments on the interpreter's stack and pushes its
  results: here the list of arguments and the list of results. \<^verbatim>\<open>L.Get(n)\<close> is \<open>LNil\<close>
  beyond the arguments; \<^verbatim>\<open>L.CheckUserData(n)\<close> raises a script error unless argument
  \<open>n\<close> is a userdata. A function that pushes nothing gives the script \<open>nil\<close>.
\<close>

definition Get :: "lvalue list \<Rightarrow> nat \<Rightarrow> lvalue" where
  "Get args n = (if 0 < n \<and> n \<le> length args then args ! (n - 1) else LNil)"

definition CheckUserData :: "lstate \<Rightarrow> lvalue list \<Rightarrow> nat \<Rightarrow> error + luserdata" where
  "CheckUserData L args n =
     (case Get args n of
        LUserData u \<Rightarrow> Inr (userdata L u)
      | _ \<Rightarrow> Inl (LuaArgError n ''userdata expected''))"

definition first_result :: "lvalue option list \<Rightarrow> lvalue option" where
  \<comment> \<open>what the script sees of the results of a call that it adjusts to one value\<close>
  "first_result rs = (case rs of [] \<Rightarrow> Some LNil | r # _ \<Rightarrow> r)"

definition mapLen :: "lstate \<Rightarrow> lvalue list \<Rightarrow> error + (lvalue option list \<times> lstate)" where
  "mapLen L args =
     bindE (CheckUserData L args 1) (\<lambda>ud.
       let value = ValueOf (Value ud) in
       bindE (Len L value) (\<lambda>n.
         Inr ([Some (LNumber (float64_of_int (int n)))], L)))"

definition mapIndex ::
  "(kind \<Rightarrow> float64 \<Rightarrow> int) \<Rightarrow> lstate \<Rightarrow> lvalue list \<Rightarrow> error + (lvalue option list \<times> lstate)" where
  "mapIndex impl L args =
     bindE (CheckUserData L args 1) (\<lambda>ud.
       let lKey = Get args 2;
           value = ValueOf (Value ud) in
       bindE (Type_Key value) (\<lambda>kt.
       bindE (lValueToReflect impl L (Some lKey) kt) (\<lambda>key.
       bindE (MapIndex L value key) (\<lambda>item.
         if \<not> IsValid item then Inr ([], L)
         else bindE (Interface item) (\<lambda>x.
              bindE (New L x) (\<lambda>(r, L1). Inr ([r], L1)))))))"

definition mapNewIndex ::
  "(kind \<Rightarrow> float64 \<Rightarrow> int) \<Rightarrow> lstate \<Rightarrow> lvalue list \<Rightarrow> error + (lvalue option list \<times> lstate)" where
  "mapNewIndex impl L args =
     bindE (CheckUserData L args 1) (\<lambda>ud.
       let lKey = Get args 2;
           lValue = Get args 3;
           value = ValueOf (Value ud) in
       bindE (Type_Key value) (\<lambda>kt.
       bindE (lValueToReflect impl L (Some lKey) kt) (\<lambda>key.
       bindE (Type_Elem value) (\<lambda>et.
       bindE (lValueToReflect impl L (Some lValue) et) (\<lambda>mapValue.
       bindE (SetMapIndex L value key mapValue) (\<lambda>L1. Inr ([], L1)))))))"

text \<open>
  \<^verbatim>\<open>mapCall\<close> takes the keys of the map and returns a new closure over \<^verbatim>\<open>value\<close>,
  \<^verbatim>\<open>keys\<close> and the counter \<^verbatim>\<open>i\<close>. \<open>fn\<close> is the body of the closure at address \<open>f\<close>.
\<close>

definition mapCall :: "lstate \<Rightarrow> lvalue list \<Rightarrow> error + (lvalue option list \<times> lstate)" where
  "mapCall L args =
     bindE (CheckUserData L args 1) (\<lambda>ud.
       let value = ValueOf (Value ud) in
       bindE (MapKeys L value) (\<lambda>keys.
         case NewFunction L (MapIterator value keys 0) of (f, L1) \<Rightarrow>
           Inr ([Some (LFunction f)], L1)))"

definition fn ::
  "nat \<Rightarrow> rvalue \<Rightarrow> rvalue list \<Rightarrow> nat \<Rightarrow> lstate \<Rightarrow> error + (lvalue option list \<times> lstate)" where
  "fn f value keys i L =
     (if i \<ge> length keys then Inr ([], L)
      else
        bindE (Interface (keys ! i)) (\<lambda>k.
        bindE (New L k) (\<lambda>(r1, L1).
        bindE (MapIndex L1 value (keys ! i)) (\<lambda>item.
        bindE (Interface item) (\<lambda>x.
        bindE (New L1 x) (\<lambda>(r2, L2).
          Inr ([r1, r2], L2\<lparr>funcs := (funcs L2)(f := MapIterator value keys (Suc i))\<rparr>)))))))"

definition callIterator :: "lstate \<Rightarrow> nat \<Rightarrow> error + (lvalue option list \<times> lstate)" where
  \<comment> \<open>a call of the function object at \<open>f\<close>, for a closure of \<^verbatim>\<open>mapCall\<close>\<close>
  "callIterator L f =
     (case funcs L f of
        MapIterator value keys i \<Rightarrow> fn f value keys i L
      | _ \<Rightarrow> Inl (LuaArgError 0 ''not an iterator of mapCall''))"

section \<open>Equality of handles (luar.go)\<close>

definition baseEqual :: "lstate \<Rightarrow> lvalue list \<Rightarrow> error + (lvalue option list \<times> lstate)" where
  "baseEqual L args =
     bindE (CheckUserData L args 1) (\<lambda>ud1.
     bindE (CheckUserData L args 2) (\<lambda>ud2.
     bindE (iface_eq (Value ud1) (Value ud2)) (\<lambda>b.
       Inr ([Some (LBool b)], L))))"

section \<open>States used by the properties\<close>

text \<open>
  \<^verbatim>\<open>ensureMetatable\<close> asserts that the registry entry under its key is a table. The
  entry is absent in a fresh interpreter and a table once \<^verbatim>\<open>ensureMetatable\<close> has run;
  under any other entry every forward conversion of a host value panics.
\<close>

definition registry_ok :: "lstate \<Rightarrow> bool" where
  "registry_ok L =
     (case Registry L metatableKey of LNil \<Rightarrow> True | LTable t \<Rightarrow> True | _ \<Rightarrow> False)"

definition init_state :: lstate where
  \<comment> \<open>a state with no object allocated and nothing in the registry\<close>
  "init_state = \<lparr>Registry = (\<lambda>k. LNil), tables = (\<lambda>a k. LNil), next_table = 0,
     userdata = (\<lambda>a. \<lparr>Value = None, Metatable = LNil\<rparr>), next_userdata = 0,
     funcs = (\<lambda>a. GoFunction F_baseEqual), next_function = 0,
     gomaps = (\<lambda>a. []), gochans = (\<lambda>a. 0)\<rparr>"

section \<open>The operator tables as a state predicate\<close>

text \<open>
  \<open>is_operator_table L a methods\<close>: the table at \<open>a\<close> is protected (\<^verbatim>\<open>__metatable\<close> is
  \<^verbatim>\<open>true\<close>) and holds, under each method name, a function object of that Go function,
  and nothing else. \<open>operator_tables L t\<close>: the table at \<open>t\<close> holds one such table for
  each of the six entries of \<^verbatim>\<open>typeMetatable\<close> and nothing else. \<open>kind_table\<close> names the
  operator table that \<^verbatim>\<open>New\<close> looks up for a kind.
\<close>

definition is_operator_table :: "lstate \<Rightarrow> nat \<Rightarrow> (string \<times> gfunction) list \<Rightarrow> bool" where
  "is_operator_table L a methods =
     (tables L a (LString ''__metatable'') = LBool True \<and>
      (\<forall>(m, g) \<in> set methods. \<exists>f. tables L a (LString m) = LFunction f \<and>
          f < next_function L \<and> funcs L f = GoFunction g) \<and>
      (\<forall>k. tables L a k \<noteq> LNil \<longrightarrow> k = LString ''__metatable'' \<or> k \<in> LString ` fst ` set methods))"

definition operator_tables :: "lstate \<Rightarrow> nat \<Rightarrow> bool" where
  "operator_tables L t =
     (t < next_table L \<and>
      (\<forall>(n, ms) \<in> set typeMetatable.
         \<exists>a. tables L t (LString n) = LTable a \<and> a \<noteq> t \<and> a < next_table L \<and>
             is_operator_table L a ms) \<and>
      {k. tables L t k \<noteq> LNil} =
        LString ` {''chan'', ''map'', ''ptr'', ''slice'', ''struct'', ''type''})"

fun kind_table :: "kind \<Rightarrow> string option" where
  "kind_table KChan = Some ''chan''"
| "kind_table KMap = Some ''map''"
| "kind_table KPtr = Some ''ptr''"
| "kind_table KSlice = Some ''slice''"
| "kind_table KStruct = Some ''struct''"
| "kind_table k = None"

section \<open>Frame conditions\<close>

definition baseToString ::
  "(gval \<Rightarrow> string) \<Rightarrow> lstate \<Rightarrow> lvalue list \<Rightarrow> error + (lvalue option list \<times> lstate)" where
  \<comment> \<open>\<open>sprintf\<close> is the text that \<^verbatim>\<open>fmt.Sprintf\<close> gives for the value of the handle;
      \<^verbatim>\<open>value.Type()\<close> panics when the handle holds nil\<close>
  "baseToString sprintf L args =
     bindE (CheckUserData L args 1) (\<lambda>ud.
       case Value ud of
         None \<Rightarrow> Inl (GoPanic ''reflect: call of reflect.Value.Type on zero Value'')
       | Some v \<Rightarrow> Inr ([Some (LString (sprintf v))], L))"

text \<open>
  \<open>keeps L L'\<close>: the objects of \<open>L\<close> are still there in \<open>L'\<close>. The handles and the tables
  of \<open>L\<close> are unchanged, the function objects of \<open>L\<close> that are host functions are the same, and the registry is
  unchanged unless \<open>L\<close> had nothing under the key of the bridge.
\<close>

definition keeps :: "lstate \<Rightarrow> lstate \<Rightarrow> bool" where
  "keeps L L' =
     (next_userdata L \<le> next_userdata L' \<and> next_table L \<le> next_table L' \<and>
      next_function L \<le> next_function L' \<and>
      (\<forall>u < next_userdata L. userdata L' u = userdata L u) \<and>
      (\<forall>a < next_table L. tables L' a = tables L a) \<and>
      (\<forall>f < next_function L. \<forall>g. funcs L' f = GoFunction g \<longleftrightarrow> funcs L f = GoFunction g) \<and>
      (Registry L metatableKey = LNil \<or> Registry L' = Registry L))"

definition tables_built :: "lstate \<Rightarrow> bool" where
  "tables_built L = (\<forall>t. Registry L metatableKey = LTable t \<longrightarrow> operator_tables L t)"

definition good :: "lstate \<Rightarrow> lstate \<Rightarrow> bool" where
  "good L L' = (keeps L L' \<and> (tables_built L \<longrightarrow> tables_built L'))"

section \<open>Basic facts\<close>

lemma bindE_Inl [simp]: "bindE (Inl e) f = Inl e"
  by (simp add: bindE_def)

lemma bindE_Inr [simp]: "bindE (Inr x) f = f x"
  by (simp add: bindE_def)

lemma kind_of_valid [simp]: "kind_of t \<noteq> KInvalid"
  by (induction t) auto

lemma ensureMetatable_returns:
  "registry_ok L \<Longrightarrow> \<exists>t L1. ensureMetatable L = Inr (t, L1)"
  by (auto simp: registry_ok_def ensureMetatable_def Let_def split: lvalue.splits prod.splits)

section \<open>Unsupported kinds\<close>

lemma New_None_iff:
  assumes "ensureMetatable L = Inr (tb, L1)"
  shows "(\<exists>L'. New L (Some (GVal t d)) = Inr (None, L')) \<longleftrightarrow>
         kind_of t \<in> {KUintptr, KComplex64, KComplex128, KArray}"
  using assms kind_of_valid [of t]
  by (cases "kind_of t") (auto simp: newHandle_def funcWrapper_def split: prod.splits)

text \<open>
  C3. The switch of \<^verbatim>\<open>New\<close> has no case for the kinds Uintptr, Complex64, Complex128
  and Array (and Invalid, which no value has). For a host value of exactly these kinds
  \<^verbatim>\<open>New\<close> returns the nil interface, which is not a script value; for every other kind
  it returns a script value.
\<close>

theorem New_unsupported_kind:
  assumes "registry_ok L"
  shows "(\<exists>L1. New L (Some (GVal t d)) = Inr (None, L1)) \<longleftrightarrow>
         kind_of t \<in> {KUintptr, KComplex64, KComplex128, KArray}"
proof -
  from assms obtain tb L1 where "ensureMetatable L = Inr (tb, L1)"
    using ensureMetatable_returns by blast
  then show ?thesis by (rule New_None_iff)
qed

theorem New_unsupported_kind_witness:
  "registry_ok init_state \<and>
   (\<exists>L1. New init_state (Some (GVal TComplex128 (DComplex 1 2))) = Inr (None, L1))"
  using New_unsupported_kind [of init_state TComplex128 "DComplex 1 2"]
  by (simp add: registry_ok_def init_state_def)

section \<open>The fatal fallback of the reverse converter\<close>

text \<open>
  C7. Each of the nine script value types has a case in the type switch of
  \<^verbatim>\<open>lValueToReflect\<close>; the value with no case is the nil interface (which \<^verbatim>\<open>New\<close>
  returns for an unsupported kind). \<^verbatim>\<open>lValueToReflect\<close> ends in its fatal panic for
  exactly that value, whatever the hint: it returns no default there, and no script value
  reaches this panic.
\<close>

theorem lValueToReflect_fatal_iff:
  "lValueToReflect impl L v hint = Inl (GoPanic ''fatal lValueToReflect error'') \<longleftrightarrow> v = None"
proof (cases v)
  case None
  then show ?thesis by simp
next
  case (Some a)
  then show ?thesis
    by (cases a) (auto simp: ConvertNumber_def ValueOf_def Zero_def split: kind.splits option.splits)
qed

section \<open>Building the operator tables\<close>

lemma RawSetH_sel [simp]:
  "Registry (RawSetH L t k v) = Registry L"
  "tables (RawSetH L t k v) = (tables L)(t := (tables L t)(k := v))"
  "next_table (RawSetH L t k v) = next_table L"
  "userdata (RawSetH L t k v) = userdata L"
  "next_userdata (RawSetH L t k v) = next_userdata L"
  "funcs (RawSetH L t k v) = funcs L"
  "next_function (RawSetH L t k v) = next_function L"
  "gomaps (RawSetH L t k v) = gomaps L"
  "gochans (RawSetH L t k v) = gochans L"
  by (simp_all add: RawSetH_def)

lemma NewFunction_sel [simp]:
  "fst (NewFunction L c) = next_function L"
  "Registry (snd (NewFunction L c)) = Registry L"
  "tables (snd (NewFunction L c)) = tables L"
  "next_table (snd (NewFunction L c)) = next_table L"
  "userdata (snd (NewFunction L c)) = userdata L"
  "next_userdata (snd (NewFunction L c)) = next_userdata L"
  "funcs (snd (NewFunction L c)) = (funcs L)(next_function L := c)"
  "next_function (snd (NewFunction L c)) = Suc (next_function L)"
  "gomaps (snd (NewFunction L c)) = gomaps L"
  "gochans (snd (NewFunction L c)) = gochans L"
  by (simp_all add: NewFunction_def)

lemma NewTable_sel [simp]:
  "fst (NewTable L) = next_table L"
  "Registry (snd (NewTable L)) = Registry L"
  "tables (snd (NewTable L)) = (tables L)(next_table L := (\<lambda>k. LNil))"
  "next_table (snd (NewTable L)) = Suc (next_table L)"
  "userdata (snd (NewTable L)) = userdata L"
  "next_userdata (snd (NewTable L)) = next_userdata L"
  "funcs (snd (NewTable L)) = funcs L"
  "next_function (snd (NewTable L)) = next_function L"
  "gomaps (snd (NewTable L)) = gomaps L"
  "gochans (snd (NewTable L)) = gochans L"
  by (simp_all add: NewTable_def)

lemma setMethods_Cons [simp]:
  "setMethods t ((m, g) # ms) L =
     setMethods t ms (RawSetH (snd (NewFunction L (GoFunction g))) t (LString m) (LFunction (next_function L)))"
  by (simp add: split_beta NewFunction_def)

declare setMethods.simps(2) [simp del]

lemma setMethods_frame [simp]:
  "Registry (setMethods t ms L) = Registry L"
  "next_table (setMethods t ms L) = next_table L"
  "userdata (setMethods t ms L) = userdata L"
  "next_userdata (setMethods t ms L) = next_userdata L"
  "gomaps (setMethods t ms L) = gomaps L"
  "gochans (setMethods t ms L) = gochans L"
  "next_function (setMethods t ms L) = next_function L + length ms"
  by (induction ms arbitrary: L) auto

lemma setMethods_funcs_old:
  "f < next_function L \<Longrightarrow> funcs (setMethods t ms L) f = funcs L f"
  by (induction ms arbitrary: L) auto

lemma setMethods_tables_other:
  "a \<noteq> t \<Longrightarrow> tables (setMethods t ms L) a = tables L a"
  by (induction ms arbitrary: L) auto

lemma setMethods_tables_key:
  "k \<notin> LString ` fst ` set ms \<Longrightarrow> tables (setMethods t ms L) t k = tables L t k"
  by (induction ms arbitrary: L) auto

lemma setMethods_tables_method:
  "distinct (map fst ms) \<Longrightarrow> (m, g) \<in> set ms \<Longrightarrow>
   \<exists>f. tables (setMethods t ms L) t (LString m) = LFunction f \<and>
       f < next_function L + length ms \<and> funcs (setMethods t ms L) f = GoFunction g"
proof (induction ms arbitrary: L)
  case Nil
  then show ?case by simp
next
  case (Cons p ms)
  obtain m' g' where p: "p = (m', g')" by (cases p)
  let ?L1 = "RawSetH (snd (NewFunction L (GoFunction g'))) t (LString m') (LFunction (next_function L))"
  show ?case
  proof (cases "(m, g) \<in> set ms")
    case True
    from Cons.prems have "distinct (map fst ms)" by simp
    from Cons.IH [OF this True, of ?L1] show ?thesis by (simp add: p)
  next
    case False
    with Cons.prems p have eq: "m = m'" "g = g'" and notin: "LString m' \<notin> LString ` fst ` set ms"
      by auto
    have "tables (setMethods t ms ?L1) t (LString m') = LFunction (next_function L)"
      using notin by (simp add: setMethods_tables_key)
    moreover have "funcs (setMethods t ms ?L1) (next_function L) = GoFunction g'"
      by (simp add: setMethods_funcs_old)
    ultimately show ?thesis by (auto simp add: p eq)
  qed
qed

lemma setTypeTables_Cons [simp]:
  "setTypeTables nt ((n, ms) # ts) L =
     setTypeTables nt ts
       (RawSetH
         (setMethods (next_table L) ms
           (RawSetH (snd (NewTable L)) (next_table L) (LString ''__metatable'') (LBool True)))
         nt (LString n) (LTable (next_table L)))"
  by (simp add: split_beta NewTable_def Let_def)

declare setTypeTables.simps(2) [simp del]


lemma setTypeTables_frame [simp]:
  "Registry (setTypeTables nt ts L) = Registry L"
  "userdata (setTypeTables nt ts L) = userdata L"
  "next_userdata (setTypeTables nt ts L) = next_userdata L"
  "gomaps (setTypeTables nt ts L) = gomaps L"
  "gochans (setTypeTables nt ts L) = gochans L"
  "next_table (setTypeTables nt ts L) = next_table L + length ts"
  by (induction ts arbitrary: L) auto

lemma setTypeTables_next_function:
  "next_function L \<le> next_function (setTypeTables nt ts L)"
proof (induction ts arbitrary: L)
  case Nil
  then show ?case by simp
next
  case (Cons p ts)
  obtain n ms where p: "p = (n, ms)" by (cases p)
  let ?L1 = "RawSetH
         (setMethods (next_table L) ms
           (RawSetH (snd (NewTable L)) (next_table L) (LString ''__metatable'') (LBool True)))
         nt (LString n) (LTable (next_table L))"
  have "next_function L \<le> next_function ?L1" by simp
  also have "\<dots> \<le> next_function (setTypeTables nt ts ?L1)" by (rule Cons.IH)
  finally show ?case by (simp add: p)
qed

lemma setTypeTables_funcs_old:
  "f < next_function L \<Longrightarrow> funcs (setTypeTables nt ts L) f = funcs L f"
  by (induction ts arbitrary: L) (auto simp: setMethods_funcs_old)

lemma setTypeTables_tables_old:
  "a < next_table L \<Longrightarrow> a \<noteq> nt \<Longrightarrow> tables (setTypeTables nt ts L) a = tables L a"
  by (induction ts arbitrary: L) (auto simp: setMethods_tables_other)

lemma setTypeTables_tables_key:
  "nt < next_table L \<Longrightarrow> k \<notin> LString ` fst ` set ts \<Longrightarrow>
   tables (setTypeTables nt ts L) nt k = tables L nt k"
  by (induction ts arbitrary: L) (auto simp: setMethods_tables_other)


lemma is_operator_table_stable:
  assumes op: "is_operator_table L a ms"
    and tb: "tables L' a = tables L a"
    and fs: "\<And>f g. f < next_function L \<Longrightarrow> funcs L f = GoFunction g \<Longrightarrow>
               funcs L' f = GoFunction g"
    and nf: "next_function L \<le> next_function L'"
  shows "is_operator_table L' a ms"
  unfolding is_operator_table_def
proof (intro conjI ballI)
  show "tables L' a (LString ''__metatable'') = LBool True"
    using op tb by (simp add: is_operator_table_def)
next
  fix x assume x: "x \<in> set ms"
  obtain m g where mg: "x = (m, g)" by (cases x)
  from op x mg obtain f where f: "tables L a (LString m) = LFunction f"
      "f < next_function L" "funcs L f = GoFunction g"
    unfolding is_operator_table_def by blast
  from f fs [OF f(2,3)] nf tb
  show "case x of (m, g) \<Rightarrow> \<exists>f. tables L' a (LString m) = LFunction f \<and>
          f < next_function L' \<and> funcs L' f = GoFunction g"
    by (auto simp: mg)
next
  show "\<forall>k. tables L' a k \<noteq> LNil \<longrightarrow>
          k = LString ''__metatable'' \<or> k \<in> LString ` fst ` set ms"
    using op tb unfolding is_operator_table_def by simp
qed

lemma setMethods_is_operator_table:
  assumes "distinct (map fst ms)" and "''__metatable'' \<notin> fst ` set ms"
    and "tables L a = (\<lambda>k. LNil)(LString ''__metatable'' := LBool True)"
  shows "is_operator_table (setMethods a ms L) a ms"
  unfolding is_operator_table_def
proof (intro conjI ballI allI impI)
  show "tables (setMethods a ms L) a (LString ''__metatable'') = LBool True"
    using assms(2,3) by (subst setMethods_tables_key) auto
next
  fix x assume x: "x \<in> set ms"
  obtain m g where mg: "x = (m, g)" by (cases x)
  from setMethods_tables_method [OF assms(1) x [unfolded mg], of a L]
  show "case x of (m, g) \<Rightarrow> \<exists>f. tables (setMethods a ms L) a (LString m) = LFunction f \<and>
          f < next_function (setMethods a ms L) \<and> funcs (setMethods a ms L) f = GoFunction g"
    by (simp add: mg)
next
  fix k assume k: "tables (setMethods a ms L) a k \<noteq> LNil"
  show "k = LString ''__metatable'' \<or> k \<in> LString ` fst ` set ms"
  proof (rule ccontr)
    assume "\<not> ?thesis"
    then have "k \<noteq> LString ''__metatable''" "k \<notin> LString ` fst ` set ms" by auto
    with assms(3) have "tables (setMethods a ms L) a k = LNil"
      by (simp add: setMethods_tables_key)
    with k show False by simp
  qed
qed


lemma setTypeTables_entry:
  assumes "nt < next_table L" and "distinct (map fst ts)" and "(n, ms) \<in> set ts"
    and "\<forall>p \<in> set ts. distinct (map fst (snd p)) \<and> ''__metatable'' \<notin> fst ` set (snd p)"
  shows "\<exists>a. tables (setTypeTables nt ts L) nt (LString n) = LTable a \<and> a \<noteq> nt \<and>
             a < next_table (setTypeTables nt ts L) \<and>
             is_operator_table (setTypeTables nt ts L) a ms"
  using assms
proof (induction ts arbitrary: L)
  case Nil
  then show ?case by simp
next
  case (Cons p ts)
  obtain n' ms' where p: "p = (n', ms')" by (cases p)
  let ?a = "next_table L"
  let ?L0 = "RawSetH (snd (NewTable L)) ?a (LString ''__metatable'') (LBool True)"
  let ?L1 = "RawSetH (setMethods ?a ms' ?L0) nt (LString n') (LTable ?a)"
  have nt1: "nt < next_table ?L1" using Cons.prems(1) by simp
  have step: "setTypeTables nt (p # ts) L = setTypeTables nt ts ?L1" by (simp add: p)
  show ?case
  proof (cases "(n, ms) \<in> set ts")
    case True
    from Cons.prems have "distinct (map fst ts)"
      and "\<forall>p \<in> set ts. distinct (map fst (snd p)) \<and> ''__metatable'' \<notin> fst ` set (snd p)"
      by simp_all
    from Cons.IH [OF nt1 this(1) True this(2)] show ?thesis by (simp only: step)
  next
    case False
    with Cons.prems(3) p have eq: "n = n'" "ms = ms'" by auto
    from Cons.prems(2) p have notin: "LString n' \<notin> LString ` fst ` set ts" by auto
    from Cons.prems(4) p have wf: "distinct (map fst ms')" "''__metatable'' \<notin> fst ` set ms'"
      by simp_all
    have ne: "?a \<noteq> nt" using Cons.prems(1) by simp
    have "tables ?L0 ?a = (\<lambda>k. LNil)(LString ''__metatable'' := LBool True)" by simp
    from setMethods_is_operator_table [OF wf this]
    have op0: "is_operator_table (setMethods ?a ms' ?L0) ?a ms'" .
    have op1: "is_operator_table ?L1 ?a ms'"
      by (rule is_operator_table_stable [OF op0]) (use ne in auto)
    have op: "is_operator_table (setTypeTables nt ts ?L1) ?a ms'"
    proof (rule is_operator_table_stable [OF op1])
      show "tables (setTypeTables nt ts ?L1) ?a = tables ?L1 ?a"
        using ne by (intro setTypeTables_tables_old) simp_all
      show "funcs (setTypeTables nt ts ?L1) f = GoFunction g"
        if "f < next_function ?L1" "funcs ?L1 f = GoFunction g" for f g
        using that by (simp add: setTypeTables_funcs_old)
      show "next_function ?L1 \<le> next_function (setTypeTables nt ts ?L1)"
        by (rule setTypeTables_next_function)
    qed
    have "tables (setTypeTables nt ts ?L1) nt (LString n') = tables ?L1 nt (LString n')"
      using nt1 notin by (rule setTypeTables_tables_key)
    also have "\<dots> = LTable ?a" by simp
    finally have "tables (setTypeTables nt ts ?L1) nt (LString n') = LTable ?a" .
    moreover have "?a < next_table (setTypeTables nt ts ?L1)" by simp
    ultimately show ?thesis using op ne by (simp only: step eq) blast
  qed
qed

lemma typeMetatable_names:
  "fst ` set typeMetatable = {''chan'', ''map'', ''ptr'', ''slice'', ''struct'', ''type''}"
  by (simp add: typeMetatable_def)

lemma typeMetatable_distinct: "distinct (map fst typeMetatable)"
  by (simp add: typeMetatable_def)

lemma typeMetatable_methods:
  "\<forall>p \<in> set typeMetatable. distinct (map fst (snd p)) \<and> ''__metatable'' \<notin> fst ` set (snd p)"
  by (simp add: typeMetatable_def)

lemma ensureMetatable_cached:
  "Registry L metatableKey = LTable t \<Longrightarrow> ensureMetatable L = Inr (t, L)"
  by (simp add: ensureMetatable_def)

lemma ensureMetatable_first:
  assumes "Registry L metatableKey = LNil"
  defines "L1 \<equiv> (setTypeTables (next_table L) typeMetatable (snd (NewTable L)))
                   \<lparr>Registry := (Registry L)(metatableKey := LTable (next_table L))\<rparr>"
  shows "ensureMetatable L = Inr (next_table L, L1)"
    and "operator_tables L1 (next_table L)"
proof -
  let ?t = "next_table L"
  let ?L2 = "setTypeTables ?t typeMetatable (snd (NewTable L))"
  show "ensureMetatable L = Inr (?t, L1)"
    using assms(1) by (simp add: ensureMetatable_def L1_def split_beta Let_def)
  have nt: "?t < next_table (snd (NewTable L))" by simp
  have tb: "tables L1 = tables ?L2" and fs: "funcs L1 = funcs ?L2"
    and nf: "next_function L1 = next_function ?L2" and ntb: "next_table L1 = next_table ?L2"
    by (simp_all add: L1_def)
  have entries: "\<exists>a. tables L1 ?t (LString n) = LTable a \<and> a \<noteq> ?t \<and> a < next_table L1 \<and>
                   is_operator_table L1 a ms"
    if "(n, ms) \<in> set typeMetatable" for n ms
  proof -
    from setTypeTables_entry [OF nt typeMetatable_distinct that typeMetatable_methods]
    obtain a where a: "tables ?L2 ?t (LString n) = LTable a" "a \<noteq> ?t"
      "a < next_table ?L2" "is_operator_table ?L2 a ms" by blast
    have "is_operator_table L1 a ms"
      by (rule is_operator_table_stable [OF a(4)]) (simp_all add: tb fs nf)
    with a tb ntb show ?thesis by auto
  qed
  have keys: "{k. tables L1 ?t k \<noteq> LNil} = LString ` fst ` set typeMetatable"
  proof (intro set_eqI iffI)
    fix k assume "k \<in> {k. tables L1 ?t k \<noteq> LNil}"
    then have k: "tables ?L2 ?t k \<noteq> LNil" by (simp add: tb)
    show "k \<in> LString ` fst ` set typeMetatable"
    proof (rule ccontr)
      assume "k \<notin> LString ` fst ` set typeMetatable"
      from setTypeTables_tables_key [OF nt this]
      have "tables ?L2 ?t k = LNil" by simp
      with k show False by simp
    qed
  next
    fix k assume "k \<in> LString ` fst ` set typeMetatable"
    then obtain n ms where "(n, ms) \<in> set typeMetatable" "k = LString n" by auto
    with entries [of n ms] show "k \<in> {k. tables L1 ?t k \<noteq> LNil}" by auto
  qed
  show "operator_tables L1 ?t"
    unfolding operator_tables_def
    using entries keys by (auto simp: typeMetatable_names ntb)
qed

section \<open>What the bridge leaves alone\<close>

lemma keeps_refl [simp]: "keeps L L"
  by (simp add: keeps_def)

lemma keeps_trans: "keeps L L1 \<Longrightarrow> keeps L1 L2 \<Longrightarrow> keeps L L2"
  unfolding keeps_def
  apply (intro conjI allI impI)
        apply linarith
       apply linarith
      apply linarith
     apply (metis order.strict_trans2)
    apply (metis order.strict_trans2)
   apply (metis order.strict_trans2)
  apply metis
  done

lemma good_refl [simp]: "good L L"
  by (simp add: good_def)

lemma good_trans: "good L L1 \<Longrightarrow> good L1 L2 \<Longrightarrow> good L L2"
  unfolding good_def using keeps_trans by blast

lemma operator_tables_stable:
  assumes op: "operator_tables L t" and k: "keeps L L'"
  shows "operator_tables L' t"
proof -
  from op have t: "t < next_table L" by (simp add: operator_tables_def)
  with k have tt: "tables L' t = tables L t" and t': "t < next_table L'"
    by (auto simp: keeps_def)
  have "\<exists>a. tables L' t (LString n) = LTable a \<and> a \<noteq> t \<and> a < next_table L' \<and>
            is_operator_table L' a ms" if "(n, ms) \<in> set typeMetatable" for n ms
  proof -
    from op that obtain a where a: "tables L t (LString n) = LTable a" "a \<noteq> t"
        "a < next_table L" "is_operator_table L a ms"
      unfolding operator_tables_def by blast
    have "is_operator_table L' a ms"
      by (rule is_operator_table_stable [OF a(4)]) (use k a(3) in \<open>auto simp: keeps_def\<close>)
    with a tt k show ?thesis by (auto simp: keeps_def)
  qed
  with op tt t' show ?thesis unfolding operator_tables_def by auto
qed

lemma good_same_registry:
  assumes "keeps L L'" and "Registry L' = Registry L"
  shows "good L L'"
  using assms operator_tables_stable unfolding good_def tables_built_def by auto


lemma ensureMetatable_good:
  assumes "ensureMetatable L = Inr (t, L')"
  shows "good L L'" and "Registry L' metatableKey = LTable t"
    and "tables_built L \<Longrightarrow> operator_tables L' t"
    and "userdata L' = userdata L" and "next_userdata L' = next_userdata L"
    and "gomaps L' = gomaps L" and "gochans L' = gochans L"
proof -
  let ?nt = "next_table L"
  let ?L1 = "(setTypeTables ?nt typeMetatable (snd (NewTable L)))
               \<lparr>Registry := (Registry L)(metatableKey := LTable ?nt)\<rparr>"
  consider (first) "Registry L metatableKey = LNil" | (cached) t' where "Registry L metatableKey = LTable t'"
    | (other) "Registry L metatableKey \<noteq> LNil" "\<forall>t'. Registry L metatableKey \<noteq> LTable t'"
    by blast
  then have "good L L' \<and> Registry L' metatableKey = LTable t \<and>
    (tables_built L \<longrightarrow> operator_tables L' t) \<and> userdata L' = userdata L \<and>
    next_userdata L' = next_userdata L \<and> gomaps L' = gomaps L \<and> gochans L' = gochans L"
  proof cases
    case first
    from ensureMetatable_first [OF first] assms
    have eq: "t = ?nt" "L' = ?L1" and op: "operator_tables ?L1 ?nt" by simp_all
    have k: "keeps L ?L1"
      unfolding keeps_def
      by (auto simp: first setTypeTables_tables_old setTypeTables_funcs_old
          intro: order_trans [OF _ setTypeTables_next_function])
    have "tables_built ?L1" using op by (simp add: tables_built_def)
    with k op show ?thesis by (simp add: eq good_def)
  next
    case cached
    with assms have "t = t'" "L' = L" by (simp_all add: ensureMetatable_cached)
    with cached show ?thesis by (simp add: tables_built_def)
  next
    case other
    with assms show ?thesis
      by (cases "Registry L metatableKey") (simp_all add: ensureMetatable_def)
  qed
  then show "good L L'" and "Registry L' metatableKey = LTable t"
    and "tables_built L \<Longrightarrow> operator_tables L' t"
    and "userdata L' = userdata L" and "next_userdata L' = next_userdata L"
    and "gomaps L' = gomaps L" and "gochans L' = gochans L"
    by simp_all
qed


lemma bindE_eq_Inr: "bindE m f = Inr y \<longleftrightarrow> (\<exists>x. m = Inr x \<and> f x = Inr y)"
  by (cases m) simp_all

lemma newHandle_good:
  assumes "newHandle L v mt = (r, L')"
  shows "good L L'" and "gomaps L' = gomaps L" and "gochans L' = gochans L"
    and "r = Some (LUserData (next_userdata L))"
    and "userdata L' = (userdata L)(next_userdata L := \<lparr>Value = Some v, Metatable = mt\<rparr>)"
    and "next_userdata L' = Suc (next_userdata L)"
    and "Registry L' = Registry L" and "tables L' = tables L" and "next_table L' = next_table L"
    and "funcs L' = funcs L" and "next_function L' = next_function L"
proof -
  from assms have L': "L' = L\<lparr>userdata := (userdata L)(next_userdata L := \<lparr>Value = Some v, Metatable = mt\<rparr>),
      next_userdata := Suc (next_userdata L)\<rparr>" and r: "r = Some (LUserData (next_userdata L))"
    by (auto simp: newHandle_def NewUserData_def)
  show "good L L'"
    by (rule good_same_registry) (simp_all add: L' keeps_def)
  show "gomaps L' = gomaps L" "gochans L' = gochans L" "r = Some (LUserData (next_userdata L))"
    "userdata L' = (userdata L)(next_userdata L := \<lparr>Value = Some v, Metatable = mt\<rparr>)"
    "next_userdata L' = Suc (next_userdata L)"
    "Registry L' = Registry L" "tables L' = tables L" "next_table L' = next_table L"
    "funcs L' = funcs L" "next_function L' = next_function L"
    by (simp_all add: L' r)
qed

lemma NewFunction_good:
  assumes "NewFunction L c = (f, L')"
  shows "good L L'" and "gomaps L' = gomaps L" and "gochans L' = gochans L"
    and "userdata L' = userdata L" and "next_userdata L' = next_userdata L"
proof -
  from assms have L': "L' = L\<lparr>funcs := (funcs L)(next_function L := c),
      next_function := Suc (next_function L)\<rparr>"
    by (auto simp: NewFunction_def)
  show "good L L'"
    by (rule good_same_registry) (simp_all add: L' keeps_def)
  show "gomaps L' = gomaps L" "gochans L' = gochans L"
    "userdata L' = userdata L" "next_userdata L' = next_userdata L"
    by (simp_all add: L')
qed

lemma New_GVal_cases:
  assumes "New L (Some (GVal ty d)) = Inr (r, L')"
  shows "\<exists>t L1. ensureMetatable L = Inr (t, L1) \<and>
           (L' = L1 \<or> (\<exists>mt. newHandle L1 (GVal ty d) mt = (r, L')) \<or>
            funcWrapper L1 (GVal ty d) = (r, L'))"
  using assms by (cases "ensureMetatable L") (auto split: kind.splits)

lemma New_good:
  assumes "New L v = Inr (r, L')"
  shows "good L L' \<and> gomaps L' = gomaps L \<and> gochans L' = gochans L"
proof (cases v)
  case None
  with assms show ?thesis by simp
next
  case (Some x)
  show ?thesis
  proof (cases x)
    case (GLua lv)
    with Some assms show ?thesis by simp
  next
    case (GVal ty d)
    with Some assms have "New L (Some (GVal ty d)) = Inr (r, L')" by simp
    from New_GVal_cases [OF this] obtain t L1 where em: "ensureMetatable L = Inr (t, L1)"
      and rest: "L' = L1 \<or> (\<exists>mt. newHandle L1 (GVal ty d) mt = (r, L')) \<or>
            funcWrapper L1 (GVal ty d) = (r, L')" by blast
    note g1 = ensureMetatable_good [OF em]
    have "good L1 L' \<and> gomaps L' = gomaps L1 \<and> gochans L' = gochans L1"
    proof -
      consider (same) "L' = L1" | (handle) mt where "newHandle L1 (GVal ty d) mt = (r, L')"
        | (func) "funcWrapper L1 (GVal ty d) = (r, L')"
        using rest by blast
      then show ?thesis
      proof cases
        case same
        then show ?thesis by simp
      next
        case handle
        from newHandle_good(1-3) [OF this] show ?thesis by simp
      next
        case func
        then obtain f where "NewFunction L1 (WrappedFunction (GVal ty d)) = (f, L')"
          by (auto simp: funcWrapper_def split: prod.splits)
        from NewFunction_good(1-3) [OF this] show ?thesis by simp
      qed
    qed
    with g1 show ?thesis using good_trans by auto
  qed
qed

end
